theory Spec2Isabelle
  imports Complex_Main "HOL-Library.Word"
begin

section \<open>JavaScript strings\<close>

text \<open>
  A JavaScript string is a sequence of UTF-16 code units. The literals of
  \<^verbatim>\<open>pages/index.tsx\<close> that are modelled here are ASCII apart from four typographic
  characters, which are named by their code points: U+201C and U+201D (the curly double
  quotes), U+2019 (the curly apostrophe) and U+2014 (the em dash).
\<close>

type_synonym char16 = "16 word"
type_synonym jsstring = "char16 list"

definition asc :: "string \<Rightarrow> jsstring" where
  "asc s = map of_char s"

definition LDQUO :: jsstring where "LDQUO = [8220]"
definition RDQUO :: jsstring where "RDQUO = [8221]"
definition RSQUO :: jsstring where "RSQUO = [8217]"
definition EMDASH :: jsstring where "EMDASH = [8212]"

text \<open>
  \<^verbatim>\<open>String.prototype.trim\<close> strips the code units of WhiteSpace and LineTerminator
  from both ends.
\<close>

definition isWhiteSpace :: "char16 \<Rightarrow> bool" where
  "isWhiteSpace c \<longleftrightarrow>
     c \<in> {9, 10, 11, 12, 13, 32, 160, 5760, 8232, 8233, 8239, 8287, 12288, 65279}
     \<or> (8192 \<le> c \<and> c \<le> 8202)"

definition trim :: "jsstring \<Rightarrow> jsstring" where
  "trim s = rev (dropWhile isWhiteSpace (rev (dropWhile isWhiteSpace s)))"

text \<open>Truthiness of a value of type \<^verbatim>\<open>string | null\<close>: null and the empty string are falsy.\<close>

definition truthy :: "jsstring option \<Rightarrow> bool" where
  "truthy v \<longleftrightarrow> v \<noteq> None \<and> v \<noteq> Some []"

text \<open>Decimal rendering of an integer, as a template literal prints an integral number.\<close>

function showNat :: "nat \<Rightarrow> jsstring" where
  "showNat n = (if n < 10 then [48 + of_nat n] else showNat (n div 10) @ [48 + of_nat (n mod 10)])"
  by pat_completeness auto
termination
  by (relation "measure id") auto

declare showNat.simps [simp del]

definition showInt :: "int \<Rightarrow> jsstring" where
  "showInt i = (if i < 0 then 45 # showNat (nat (- i)) else showNat (nat i))"


section \<open>JavaScript numbers\<close>

text \<open>
  A JavaScript number (\<^verbatim>\<open>number\<close> in the source) is a finite value, one of the two
  infinities or NaN. A finite value is modelled by the rational it stands for. An
  operation whose exact result reaches the overflow threshold of binary64,
  \<open>2 ^ 1024 - 2 ^ 970\<close>, returns an infinity, as it does in JavaScript; below the threshold
  the exact result is kept, so the rounding of finite results to 53 bits and the sign of
  zero are not modelled. \<open>computePreviewGradient\<close> divides only by \<open>total\<close> and by a
  positive \<open>flexibleTotal\<close>, never by a zero.
\<close>

datatype jsnum = Fin rat | PosInf | NegInf | NaN

definition overflowBound :: rat where
  "overflowBound = 2 ^ 1024 - 2 ^ 970"

definition fin :: "rat \<Rightarrow> jsnum" where
  "fin x = (if overflowBound \<le> x then PosInf
            else if x \<le> - overflowBound then NegInf
            else Fin x)"

text \<open>Negation, \<open>+\<close>, \<open>-\<close>, \<open>*\<close> and \<open>/\<close>.\<close>

fun jsNeg :: "jsnum \<Rightarrow> jsnum" where
  "jsNeg (Fin x) = Fin (- x)"
| "jsNeg PosInf = NegInf"
| "jsNeg NegInf = PosInf"
| "jsNeg NaN = NaN"

fun jsAdd :: "jsnum \<Rightarrow> jsnum \<Rightarrow> jsnum" where
  "jsAdd (Fin x) (Fin y) = fin (x + y)"
| "jsAdd NaN b = NaN"
| "jsAdd a NaN = NaN"
| "jsAdd PosInf NegInf = NaN"
| "jsAdd NegInf PosInf = NaN"
| "jsAdd PosInf b = PosInf"
| "jsAdd a PosInf = PosInf"
| "jsAdd NegInf b = NegInf"
| "jsAdd a NegInf = NegInf"

definition jsSub :: "jsnum \<Rightarrow> jsnum \<Rightarrow> jsnum" where
  "jsSub a b = jsAdd a (jsNeg b)"

definition infinityOfSign :: "bool \<Rightarrow> jsnum" where
  "infinityOfSign positive = (if positive then PosInf else NegInf)"

fun jsMul :: "jsnum \<Rightarrow> jsnum \<Rightarrow> jsnum" where
  "jsMul (Fin x) (Fin y) = fin (x * y)"
| "jsMul NaN b = NaN"
| "jsMul a NaN = NaN"
| "jsMul (Fin x) PosInf = (if x = 0 then NaN else infinityOfSign (0 < x))"
| "jsMul (Fin x) NegInf = (if x = 0 then NaN else infinityOfSign (x < 0))"
| "jsMul PosInf (Fin y) = (if y = 0 then NaN else infinityOfSign (0 < y))"
| "jsMul NegInf (Fin y) = (if y = 0 then NaN else infinityOfSign (y < 0))"
| "jsMul PosInf PosInf = PosInf"
| "jsMul PosInf NegInf = NegInf"
| "jsMul NegInf PosInf = NegInf"
| "jsMul NegInf NegInf = PosInf"

fun jsDiv :: "jsnum \<Rightarrow> jsnum \<Rightarrow> jsnum" where
  "jsDiv (Fin x) (Fin y) =
     (if y = 0 then (if x = 0 then NaN else infinityOfSign (0 < x)) else fin (x / y))"
| "jsDiv NaN b = NaN"
| "jsDiv a NaN = NaN"
| "jsDiv (Fin x) PosInf = Fin 0"
| "jsDiv (Fin x) NegInf = Fin 0"
| "jsDiv PosInf (Fin y) = infinityOfSign (0 \<le> y)"
| "jsDiv NegInf (Fin y) = infinityOfSign (y < 0)"
| "jsDiv PosInf PosInf = NaN"
| "jsDiv PosInf NegInf = NaN"
| "jsDiv NegInf PosInf = NaN"
| "jsDiv NegInf NegInf = NaN"

text \<open>The comparisons \<open><\<close>, \<open>===\<close> and \<open><=\<close>: every comparison with NaN is false.\<close>

fun jsLess :: "jsnum \<Rightarrow> jsnum \<Rightarrow> bool" where
  "jsLess (Fin x) (Fin y) = (x < y)"
| "jsLess NaN b = False"
| "jsLess a NaN = False"
| "jsLess a NegInf = False"
| "jsLess PosInf b = False"
| "jsLess NegInf b = True"
| "jsLess a PosInf = True"

fun jsStrictEq :: "jsnum \<Rightarrow> jsnum \<Rightarrow> bool" where
  "jsStrictEq NaN b = False"
| "jsStrictEq a NaN = False"
| "jsStrictEq a b = (a = b)"

definition jsLessEq :: "jsnum \<Rightarrow> jsnum \<Rightarrow> bool" where
  "jsLessEq a b \<longleftrightarrow> jsLess a b \<or> jsStrictEq a b"

text \<open>\<^verbatim>\<open>Math.max\<close> and \<^verbatim>\<open>Math.min\<close> of two arguments: NaN if either is NaN.\<close>

definition jsMax :: "jsnum \<Rightarrow> jsnum \<Rightarrow> jsnum" where
  "jsMax a b = (if a = NaN \<or> b = NaN then NaN else if jsLess a b then b else a)"

definition jsMin :: "jsnum \<Rightarrow> jsnum \<Rightarrow> jsnum" where
  "jsMin a b = (if a = NaN \<or> b = NaN then NaN else if jsLess b a then b else a)"

text \<open>\<^verbatim>\<open>Math.round\<close> rounds to the nearest integer, a half upwards.\<close>

fun jsRound :: "jsnum \<Rightarrow> jsnum" where
  "jsRound (Fin x) = Fin (of_int \<lfloor>x + 1 / 2\<rfloor>)"
| "jsRound a = a"

text \<open>
  A number inside a template literal. The numbers printed below are the gradient stops,
  which are NaN or integers; an integer is printed in decimal.
\<close>

definition showNum :: "jsnum \<Rightarrow> jsstring" where
  "showNum a =
     (case a of
        Fin x \<Rightarrow> showInt \<lfloor>x\<rfloor>
      | PosInf \<Rightarrow> asc ''Infinity''
      | NegInf \<Rightarrow> asc ''-Infinity''
      | NaN \<Rightarrow> asc ''NaN'')"


section \<open>Preview synthesis: the gradient\<close>

text \<open>\<^verbatim>\<open>computePreviewGradient(d, w, c)\<close>.\<close>

definition c1 :: jsstring where "c1 = asc ''rgb(214, 107, 250)''"
definition c2 :: jsstring where "c2 = asc ''rgb(255, 210, 122)''"
definition c3 :: jsstring where "c3 = asc ''rgb(105, 237, 199)''"

definition minSeg :: jsnum where "minSeg = Fin 8"

definition overlap :: jsnum where "overlap = Fin 2"

text \<open>The three normalized percentages \<open>parts = [p1, p2, p3]\<close>.\<close>

definition normalizedParts :: "jsnum \<Rightarrow> jsnum \<Rightarrow> jsnum \<Rightarrow> jsnum list" where
  "normalizedParts d w c =
     (let total = jsMax (Fin (1 / 10000)) (jsAdd (jsAdd d w) c);
          p1 = jsMul (jsDiv d total) (Fin 100);
          p2 = jsMul (jsDiv w total) (Fin 100);
          p3 = jsMul (jsDiv c total) (Fin 100)
      in [p1, p2, p3])"

text \<open>The variables of the two loops: \<open>adjusted\<close>, \<open>remaining\<close> and \<open>flexibleTotal\<close>.\<close>

record clamp_state =
  adjusted :: "jsnum list"
  remaining :: jsnum
  flexibleTotal :: jsnum

text \<open>One iteration of the first pass, which clamps small segments to \<open>minSeg\<close>.\<close>

definition clampStep :: "jsnum list \<Rightarrow> clamp_state \<Rightarrow> nat \<Rightarrow> clamp_state" where
  "clampStep parts s i =
     (if jsLess (parts ! i) minSeg
      then s\<lparr>adjusted := (adjusted s)[i := minSeg], remaining := jsSub (remaining s) minSeg\<rparr>
      else s\<lparr>flexibleTotal := jsAdd (flexibleTotal s) (parts ! i)\<rparr>)"

definition firstPass :: "jsnum list \<Rightarrow> clamp_state" where
  "firstPass parts =
     foldl (clampStep parts)
       \<lparr>adjusted = [Fin 0, Fin 0, Fin 0], remaining = Fin 100, flexibleTotal = Fin 0\<rparr> [0, 1, 2]"

text \<open>One iteration of the second loop, which fills the entries still equal to 0.\<close>

definition distributeStep ::
    "jsnum list \<Rightarrow> jsnum \<Rightarrow> jsnum \<Rightarrow> jsnum list \<Rightarrow> nat \<Rightarrow> jsnum list" where
  "distributeStep parts ft rem adj i =
     (if jsStrictEq (adj ! i) (Fin 0) then adj[i := jsMul (jsDiv (parts ! i) ft) rem] else adj)"

text \<open>
  Both passes on the array \<open>parts\<close>: the array \<open>adjusted\<close> that results, the widths
  of the three segments.
\<close>

definition adjustParts :: "jsnum list \<Rightarrow> jsnum list" where
  "adjustParts parts =
     (let s = firstPass parts
      in if jsLessEq (flexibleTotal s) (Fin 0)
         then [jsDiv (Fin 100) (Fin 3), jsDiv (Fin 100) (Fin 3), jsDiv (Fin 100) (Fin 3)]
         else foldl (distributeStep parts (flexibleTotal s) (remaining s)) (adjusted s) [0, 1, 2])"

definition segmentWidths :: "jsnum \<Rightarrow> jsnum \<Rightarrow> jsnum \<Rightarrow> jsnum list" where
  "segmentWidths d w c = adjustParts (normalizedParts d w c)"

text \<open>The condition of the branch that distributes evenly.\<close>

definition evenSplit :: "jsnum \<Rightarrow> jsnum \<Rightarrow> jsnum \<Rightarrow> bool" where
  "evenSplit d w c \<longleftrightarrow> jsLessEq (flexibleTotal (firstPass (normalizedParts d w c))) (Fin 0)"

text \<open>
  The cumulative stops and the overlap around them. As finite results are not rounded to
  53 bits, a stop can differ by one from the browser's where the exact width lies at a
  half, as \<open>25 / 2\<close> at \<open>(3, 14, 7)\<close>.
\<close>

record gradient_stops =
  s1a :: jsnum
  s1b :: jsnum
  s2a :: jsnum
  s2b :: jsnum

definition gradientStops :: "jsnum \<Rightarrow> jsnum \<Rightarrow> jsnum \<Rightarrow> gradient_stops" where
  "gradientStops d w c =
     (let adj = segmentWidths d w c;
          stop1 = jsRound (adj ! 0);
          stop2 = jsRound (jsAdd (adj ! 0) (adj ! 1))
      in \<lparr>s1a = jsMax (Fin 0) (jsSub stop1 overlap), s1b = jsMin (Fin 100) (jsAdd stop1 overlap),
          s2a = jsMax (Fin 0) (jsSub stop2 overlap), s2b = jsMin (Fin 100) (jsAdd stop2 overlap)\<rparr>)"

definition computePreviewGradient :: "jsnum \<Rightarrow> jsnum \<Rightarrow> jsnum \<Rightarrow> jsstring" where
  "computePreviewGradient d w c =
     (let g = gradientStops d w c
      in asc ''linear-gradient(90deg, '' @ c1 @ asc '' 0%, ''
         @ c1 @ asc '' '' @ showNum (s1a g) @ asc ''%, ''
         @ c2 @ asc '' '' @ showNum (s1b g) @ asc ''%, ''
         @ c2 @ asc '' '' @ showNum (s2a g) @ asc ''%, ''
         @ c3 @ asc '' '' @ showNum (s2b g) @ asc ''%, ''
         @ c3 @ asc '' 100%)'')"

text \<open>
  Notation for the results on finite percentages \<open>p1\<close>, \<open>p2\<close>, \<open>p3\<close>: the sum of the
  percentages that are not clamped, the budget left after the clamped ones took 8 each,
  and the width of a percentage \<open>p\<close>, which is 8 if \<open>p\<close> is clamped and its share of the
  budget otherwise.
\<close>

abbreviation flexSum :: "rat \<Rightarrow> rat \<Rightarrow> rat \<Rightarrow> rat" where
  "flexSum p1 p2 p3 \<equiv>
     (if p1 < 8 then 0 else p1) + (if p2 < 8 then 0 else p2) + (if p3 < 8 then 0 else p3)"

abbreviation budget :: "rat \<Rightarrow> rat \<Rightarrow> rat \<Rightarrow> rat" where
  "budget p1 p2 p3 \<equiv>
     100 - (if p1 < 8 then 8 else 0) - (if p2 < 8 then 8 else 0) - (if p3 < 8 then 8 else 0)"

abbreviation widthOf :: "rat \<Rightarrow> rat \<Rightarrow> rat \<Rightarrow> rat \<Rightarrow> rat" where
  "widthOf p1 p2 p3 p \<equiv> (if p < 8 then 8 else p / flexSum p1 p2 p3 * budget p1 p2 p3)"


section \<open>Preview synthesis: the texts\<close>

definition APOS :: jsstring where "APOS = [39]"
definition QUOT :: jsstring where "QUOT = [34]"

record preview_message =
  msg :: jsstring
  reflection :: jsstring

text \<open>The initial values of \<open>msg\<close> and \<open>reflection\<close>: the neutral template.\<close>

definition msgDefault :: jsstring where
  "msgDefault = LDQUO @ asc ''Let'' @ RSQUO @ asc ''s get to the real issue. What'' @ RSQUO
     @ asc ''s the cost of not changing this?'' @ RDQUO"

definition reflectionDefault :: jsstring where
  "reflectionDefault = LDQUO
     @ asc ''Real change happens when we stop avoiding discomfort. Imagine climbing a mountain ''
     @ EMDASH @ asc '' the only way is up. What tough step are you avoiding?'' @ RDQUO"

text \<open>The warmth-led template.\<close>

definition msgWarmth :: jsstring where
  "msgWarmth = LDQUO @ asc ''I'' @ RSQUO @ asc ''m glad you'' @ RSQUO
     @ asc ''re here. Tell me more about what feels heavy for you right now.'' @ RDQUO"

definition reflectionWarmth :: jsstring where
  "reflectionWarmth = LDQUO
     @ asc ''Real change happens when we feel safe to be vulnerable. Think of planting seeds ''
     @ EMDASH @ asc '' growth takes time and care. What seed do you want to nurture this week?''
     @ RDQUO"

text \<open>The directness-led template.\<close>

definition msgDirectness :: jsstring where
  "msgDirectness = LDQUO @ asc ''What'' @ RSQUO @ asc ''s holding you back? Be specific.'' @ RDQUO"

definition reflectionDirectness :: jsstring where
  "reflectionDirectness = LDQUO
     @ asc ''Real change happens when excuses stop. Picture riding a bike ''
     @ EMDASH @ asc '' either you push the pedal, or you don'' @ RSQUO @ asc ''t move. What''
     @ RSQUO @ asc ''s the first action you'' @ RSQUO @ asc ''ll take today?'' @ RDQUO"

text \<open>
  \<^verbatim>\<open>msg.replace(/\?"$/, ' - and what will you do about it?"')\<close> (the dash is U+2014).
  The pattern is a question mark (63) followed by the ASCII quotation mark (34) at the
  end of the input; without the global flag the only possible match is the last two code
  units, which the replacement text then stands for.
\<close>

definition confrontationalClause :: jsstring where
  "confrontationalClause = asc '' '' @ EMDASH @ asc '' and what will you do about it?'' @ QUOT"

definition replaceTrailingQuestion :: "jsstring \<Rightarrow> jsstring" where
  "replaceTrailingQuestion m =
     (if 2 \<le> length m \<and> drop (length m - 2) m = [63, 34]
      then take (length m - 2) m @ confrontationalClause
      else m)"

text \<open>The message and reflection that \<open>commitPreviewFromSliders\<close> stores.\<close>

definition previewTexts :: "int \<Rightarrow> int \<Rightarrow> int \<Rightarrow> preview_message" where
  "previewTexts d wv ch =
     (let t0 = \<lparr>msg = msgDefault, reflection = reflectionDefault\<rparr>;
          t1 = (if wv \<ge> 7 \<and> wv > d then \<lparr>msg = msgWarmth, reflection = reflectionWarmth\<rparr>
                else if d \<ge> 7 \<and> d \<ge> wv
                then \<lparr>msg = msgDirectness, reflection = reflectionDirectness\<rparr>
                else t0)
      in if ch \<ge> 8 then t1\<lparr>msg := replaceTrailingQuestion (msg t1)\<rparr> else t1)"

text \<open>The closure \<open>gen\<close>: the demo sentence.\<close>

definition demoWarmth :: jsstring where
  "demoWarmth = asc ''I'' @ APOS @ asc ''m glad you'' @ APOS
     @ asc ''re here. Tell me more about what feels heavy for you right now.''"

definition demoDirectness :: jsstring where
  "demoDirectness = asc ''What'' @ APOS @ asc ''s holding you back? Be specific.''"

definition demoChallenge :: jsstring where
  "demoChallenge = asc ''Tell me about the feeling behind that choice.''"

definition demoDefault :: jsstring where
  "demoDefault = asc ''Hi, I'' @ APOS @ asc ''m here to help you reflect. What if we explore what''
     @ APOS @ asc ''s holding you back right now?''"

definition gen :: "int \<Rightarrow> int \<Rightarrow> int \<Rightarrow> jsstring" where
  "gen d wv ch =
     (if wv \<ge> 7 \<and> wv > d then demoWarmth
      else if d \<ge> 7 \<and> d \<ge> wv then demoDirectness
      else if ch \<ge> 7 then demoChallenge
      else demoDefault)"


section \<open>The state of the wizard\<close>

text \<open>
  \<open>StepPanel\<close> keeps every question of every step in \<open>useState\<close> cells of one
  component; the record lists them in the order of the source. A selection of type
  \<^verbatim>\<open>string | null\<close> is an option, a multi-selection a list. The permission map
  \<open>gQ3Map\<close> is read only for truthiness, so a missing key and a key bound to null are
  both \<open>None\<close>.
\<close>

datatype thumb = Up | Down

datatype feedback_choice = Accept | Tweak | Sharpen

record panel_state =
  subIndex :: nat
  onboardingLang :: "jsstring option"
  twinLang :: "jsstring option"
  q1Text :: jsstring
  q2Selections :: "jsstring list"
  q2OtherOpen :: bool
  q2OtherText :: jsstring
  q3Selection :: "jsstring option"
  q3OtherOpen :: bool
  q3OtherText :: jsstring
  q4Selection :: "jsstring option"
  q4OtherOpen :: bool
  q4OtherText :: jsstring
  q5Selections :: "jsstring list"
  q5OtherOpen :: bool
  q5OtherText :: jsstring
  mQ1Selection :: "jsstring option"
  mQ1OtherOpen :: bool
  mQ1OtherText :: jsstring
  mQ2Selection :: "jsstring option"
  mQ2OtherOpen :: bool
  mQ2OtherText :: jsstring
  mQ3Selection :: "jsstring option"
  mQ3OtherOpen :: bool
  mQ3OtherText :: jsstring
  exQ1Selection :: "jsstring option"
  exQ1OtherOpen :: bool
  exQ1OtherText :: jsstring
  exQ2Selection :: "jsstring option"
  exQ2OtherOpen :: bool
  exQ2OtherText :: jsstring
  exQ3Text :: jsstring
  gQ1Selections :: "jsstring list"
  gQ1OtherOpen :: bool
  gQ1OtherText :: jsstring
  gQ2Selection :: "jsstring option"
  gQ2OtherOpen :: bool
  gQ2OtherText :: jsstring
  gQ3Map :: "jsstring \<Rightarrow> jsstring option"
  previewRating :: int
  showAdvancedPreviewControls :: bool
  directness :: int
  warmth :: int
  challenge :: int
  commDirectness :: int
  commWarmth :: int
  commChallenge :: int
  previewMessage :: "preview_message option"
  feedbackThumb :: "thumb option"
  feedbackRating :: int
  selectedFeedbackChoice :: "feedback_choice option"
  demoContent :: jsstring
  demoVisible :: bool
  bgGradient :: jsstring
  nextBgGradient :: jsstring
  bgFading :: bool
  showIntro :: bool

definition guardQ3Rows :: "jsstring list" where
  "guardQ3Rows = [asc ''Check ins'', asc ''Homework'', asc ''Goal reminders'',
     asc ''Reflection prompts'', asc ''Celebrate progress'', asc ''Suggest resources'',
     asc ''Handle emotions'', asc ''Scheduling'']"

text \<open>The arguments of the \<open>useState\<close> calls.\<close>

definition initialPanel :: panel_state where
  "initialPanel = \<lparr>
     subIndex = 0, onboardingLang = None, twinLang = None,
     q1Text = [], q2Selections = [], q2OtherOpen = False, q2OtherText = [],
     q3Selection = None, q3OtherOpen = False, q3OtherText = [],
     q4Selection = None, q4OtherOpen = False, q4OtherText = [],
     q5Selections = [], q5OtherOpen = False, q5OtherText = [],
     mQ1Selection = None, mQ1OtherOpen = False, mQ1OtherText = [],
     mQ2Selection = None, mQ2OtherOpen = False, mQ2OtherText = [],
     mQ3Selection = None, mQ3OtherOpen = False, mQ3OtherText = [],
     exQ1Selection = None, exQ1OtherOpen = False, exQ1OtherText = [],
     exQ2Selection = None, exQ2OtherOpen = False, exQ2OtherText = [],
     exQ3Text = [],
     gQ1Selections = [], gQ1OtherOpen = False, gQ1OtherText = [],
     gQ2Selection = None, gQ2OtherOpen = False, gQ2OtherText = [],
     gQ3Map = (\<lambda>r. None),
     previewRating = 5, showAdvancedPreviewControls = False,
     directness = 5, warmth = 5, challenge = 5,
     commDirectness = 5, commWarmth = 5, commChallenge = 5,
     previewMessage = None, feedbackThumb = None, feedbackRating = 8,
     selectedFeedbackChoice = None,
     demoContent = asc ''Hi, I'' @ RSQUO
       @ asc ''m here to help you reflect. What if we explore what'' @ RSQUO
       @ asc ''s holding you back right now?'',
     demoVisible = True,
     bgGradient = computePreviewGradient (Fin 5) (Fin 5) (Fin 5), nextBgGradient = [], bgFading = False,
     showIntro = True\<rparr>"

text \<open>The state of \<open>Home\<close>, and the fixed list of steps.\<close>

record step =
  id_step :: jsstring
  label :: jsstring

record home_state =
  showStepper :: bool
  currentStep :: nat
  stepProgress :: "jsstring \<rightharpoonup> rat"

record app_state =
  home :: home_state
  panel :: panel_state

definition steps :: "step list" where
  "steps = [
     \<lparr>id_step = asc ''language'', label = asc ''Language''\<rparr>,
     \<lparr>id_step = asc ''identity'', label = asc ''Identity & Tone''\<rparr>,
     \<lparr>id_step = asc ''method'', label = asc ''Method & Beliefs''\<rparr>,
     \<lparr>id_step = asc ''example'', label = asc ''Example in Action''\<rparr>,
     \<lparr>id_step = asc ''guardrails'', label = asc ''Guardrails''\<rparr>,
     \<lparr>id_step = asc ''preview'', label = asc ''Preview''\<rparr>]"

definition initialHome :: home_state where
  "initialHome = \<lparr>showStepper = False, currentStep = 0, stepProgress = Map.empty\<rparr>"

text \<open>\<open>steps[currentStep]\<close>, undefined out of range.\<close>

definition currentStepOf :: "home_state \<Rightarrow> step option" where
  "currentStepOf h =
     (if currentStep h < length steps then Some (steps ! currentStep h) else None)"

definition currentStepId :: "home_state \<Rightarrow> jsstring option" where
  "currentStepId h = map_option id_step (currentStepOf h)"


section \<open>The effects of \<open>StepPanel\<close>\<close>

text \<open>The effect on \<open>[step.id]\<close> that resets the questions.\<close>

definition resetEffect :: "panel_state \<Rightarrow> panel_state" where
  "resetEffect p = p\<lparr>
     subIndex := 0, onboardingLang := None, twinLang := None,
     q1Text := [], q2Selections := [], q2OtherOpen := False, q2OtherText := [],
     q3Selection := None, q3OtherText := [],
     q4Selection := None, q4OtherOpen := False, q4OtherText := [],
     q5Selections := [], q5OtherOpen := False, q5OtherText := [],
     mQ1Selection := None, mQ1OtherOpen := False, mQ1OtherText := [],
     mQ2Selection := None, mQ2OtherOpen := False, mQ2OtherText := [],
     mQ3Selection := None, mQ3OtherOpen := False, mQ3OtherText := [],
     exQ1Selection := None, exQ1OtherOpen := False, exQ1OtherText := [],
     exQ2Selection := None, exQ2OtherOpen := False, exQ2OtherText := [],
     exQ3Text := [],
     gQ1Selections := [], gQ1OtherOpen := False, gQ1OtherText := [],
     gQ2Selection := None, gQ2OtherOpen := False, gQ2OtherText := [],
     gQ3Map := (\<lambda>r. None),
     previewRating := 5, showAdvancedPreviewControls := False,
     directness := 5, warmth := 5, challenge := 5\<rparr>"

text \<open>The effect on \<open>[step.id]\<close> that shows the intro screen.\<close>

definition showIntroEffect :: "panel_state \<Rightarrow> panel_state" where
  "showIntroEffect p = p\<lparr>showIntro := True\<rparr>"

text \<open>
  The effect that reports progress: the value handed to \<open>onProgressChange\<close>, for the
  props \<open>step\<close>, \<open>stepIndex\<close> and \<open>total\<close> (here \<open>total_steps\<close>).
\<close>

definition answeredIf :: "bool \<Rightarrow> rat" where
  "answeredIf b = (if b then 1 else 0)"

definition progressValue :: "step \<Rightarrow> nat \<Rightarrow> nat \<Rightarrow> panel_state \<Rightarrow> rat" where
  "progressValue st stepIndex total_steps p =
     (if id_step st = asc ''language'' then
        (let totalQuestions = 2;
             answered = max 0 (min totalQuestions (subIndex p))
         in of_nat answered / of_nat totalQuestions)
      else if id_step st = asc ''identity'' then
        (let answered = sum_list [
               answeredIf (trim (q1Text p) \<noteq> []),
               answeredIf (length (q2Selections p) > 0 \<or> (q2OtherOpen p \<and> trim (q2OtherText p) \<noteq> [])),
               answeredIf (q3Selection p \<noteq> None \<or> trim (q3OtherText p) \<noteq> []),
               answeredIf (q4Selection p \<noteq> None \<or> (q4OtherOpen p \<and> trim (q4OtherText p) \<noteq> [])),
               answeredIf (length (q5Selections p) > 0 \<or> (q5OtherOpen p \<and> trim (q5OtherText p) \<noteq> []))]
         in answered / 5)
      else if id_step st = asc ''method'' then
        (let answered = sum_list [
               answeredIf (mQ1Selection p \<noteq> None \<or> (mQ1OtherOpen p \<and> trim (mQ1OtherText p) \<noteq> [])),
               answeredIf (mQ2Selection p \<noteq> None \<or> (mQ2OtherOpen p \<and> trim (mQ2OtherText p) \<noteq> [])),
               answeredIf (mQ3Selection p \<noteq> None \<or> (mQ3OtherOpen p \<and> trim (mQ3OtherText p) \<noteq> []))]
         in answered / 3)
      else if id_step st = asc ''example'' then
        (let answered = sum_list [
               answeredIf (exQ1Selection p \<noteq> None \<or> (exQ1OtherOpen p \<and> trim (exQ1OtherText p) \<noteq> [])),
               answeredIf (exQ2Selection p \<noteq> None \<or> (exQ2OtherOpen p \<and> trim (exQ2OtherText p) \<noteq> [])),
               answeredIf (trim (exQ3Text p) \<noteq> [])]
         in answered / 3)
      else if id_step st = asc ''guardrails'' then
        (let q1Answered = answeredIf (length (gQ1Selections p) > 0
                            \<or> (gQ1OtherOpen p \<and> trim (gQ1OtherText p) \<noteq> []));
             q2Answered = answeredIf (gQ2Selection p \<noteq> None
                            \<or> (gQ2OtherOpen p \<and> trim (gQ2OtherText p) \<noteq> []));
             totalRows = length guardQ3Rows;
             answeredRows = foldl (\<lambda>acc r. acc + answeredIf (truthy (gQ3Map p r))) 0 guardQ3Rows;
             q3Score = (if totalRows > 0 then answeredRows / of_nat totalRows else 0);
             answered = q1Answered + q2Answered + q3Score
         in answered / 3)
      else if id_step st = asc ''preview'' then
        (let answered = answeredIf (previewRating p > 0) in answered)
      else answeredIf (int stepIndex < int total_steps - 1))"

text \<open>
  \<open>Home\<close>: \<open>handleStepProgress\<close> clamps and stores, \<open>reportProgress\<close> looks up the id of
  the current step and returns when there is none.
\<close>

definition handleStepProgress :: "jsstring \<Rightarrow> rat \<Rightarrow> home_state \<Rightarrow> home_state" where
  "handleStepProgress i p h = h\<lparr>stepProgress := (stepProgress h)(i \<mapsto> max 0 (min 1 p))\<rparr>"

definition reportProgress :: "rat \<Rightarrow> home_state \<Rightarrow> home_state" where
  "reportProgress p h =
     (case currentStepId h of
        None \<Rightarrow> h
      | Some i \<Rightarrow> if i = [] then h else handleStepProgress i p h)"

text \<open>One run of the progress effect, on the state of the render it belongs to.\<close>

definition progressEffect :: "app_state \<Rightarrow> app_state" where
  "progressEffect a =
     (case currentStepOf (home a) of
        None \<Rightarrow> a
      | Some st \<Rightarrow>
          a\<lparr>home := reportProgress
                (progressValue st (currentStep (home a)) (length steps) (panel a)) (home a)\<rparr>)"

text \<open>
  What follows a render in which \<open>step.id\<close> has changed. The three effects run in the
  order of the source on the values of that render: the reset and the intro effect queue
  their updates, the progress effect reports the value computed from the answers not yet
  reset. The updates cause a second render, after which the progress effect runs on the
  reset answers.
\<close>

definition stepChangeEffects :: "app_state \<Rightarrow> app_state" where
  "stepChangeEffects a =
     (let a1 = progressEffect a;
          a2 = a1\<lparr>panel := showIntroEffect (resetEffect (panel a1))\<rparr>
      in progressEffect a2)"


section \<open>Navigation\<close>

text \<open>The callbacks \<open>onPrev\<close> and \<open>onNext\<close> that \<open>Home\<close> hands to the panel.\<close>

definition onPrev :: "app_state \<Rightarrow> app_state" where
  "onPrev a = a\<lparr>home := (home a)\<lparr>currentStep := max 0 (currentStep (home a) - 1)\<rparr>\<rparr>"

definition onNext :: "app_state \<Rightarrow> app_state" where
  "onNext a =
     a\<lparr>home := (home a)\<lparr>currentStep := min (length steps - 1) (currentStep (home a) + 1)\<rparr>\<rparr>"

definition setSubIndex :: "(nat \<Rightarrow> nat) \<Rightarrow> app_state \<Rightarrow> app_state" where
  "setSubIndex f a = a\<lparr>panel := (panel a)\<lparr>subIndex := f (subIndex (panel a))\<rparr>\<rparr>"

definition goPrev :: "app_state \<Rightarrow> app_state" where
  "goPrev a =
     (if subIndex (panel a) = 0 then onPrev a else setSubIndex (\<lambda>s. max 0 (s - 1)) a)"

text \<open>
  \<open>goNext\<close>. The first component of the result is the text of the \<open>alert\<close>, if one is
  raised; the second is the state the handler leaves.
\<close>

definition alert :: "string \<Rightarrow> app_state \<Rightarrow> jsstring option \<times> app_state" where
  "alert message a = (Some (asc message), a)"

definition goNext :: "app_state \<Rightarrow> jsstring option \<times> app_state" where
  "goNext a =
     (let p = panel a; sid = currentStepId (home a) in
      if sid = Some (asc ''language'') then
        (let lastSub = 2 in
         if subIndex p < lastSub then
           (if subIndex p = 0 \<and> \<not> truthy (onboardingLang p)
              then alert ''Please select a language to continue'' a
            else if subIndex p = 1 \<and> \<not> truthy (twinLang p)
              then alert ''Please select a language for your AI Twin'' a
            else (None, setSubIndex (\<lambda>s. s + 1) a))
         else (None, onNext a))
      else if sid = Some (asc ''identity'') then
        (let lastSub = 5 in
         if subIndex p < lastSub then
           (if subIndex p = 0 \<and> trim (q1Text p) = []
              then alert ''Please answer Q1 to continue'' a
            else if subIndex p = 1 \<and> length (q2Selections p) = 0
                    \<and> \<not> (q2OtherOpen p \<and> trim (q2OtherText p) \<noteq> [])
              then alert ''Please select at least one tone for Q2'' a
            else if subIndex p = 2 \<and> q3Selection p = None \<and> trim (q3OtherText p) = []
              then alert ''Please select or enter a phrase for Q3'' a
            else if subIndex p = 3 \<and> q4Selection p = None
                    \<and> \<not> (q4OtherOpen p \<and> trim (q4OtherText p) \<noteq> [])
              then alert ''Please select a phrase for Q4'' a
            else (None, setSubIndex (\<lambda>s. s + 1) a))
         else (None, onNext a))
      else if sid = Some (asc ''example'') then
        (let lastSub = 3 in
         if subIndex p < lastSub then
           (if subIndex p = 0 \<and> exQ1Selection p = None
                 \<and> \<not> (exQ1OtherOpen p \<and> trim (exQ1OtherText p) \<noteq> [])
              then alert ''Please answer Q1 to continue'' a
            else if subIndex p = 1 \<and> exQ2Selection p = None
                    \<and> \<not> (exQ2OtherOpen p \<and> trim (exQ2OtherText p) \<noteq> [])
              then alert ''Please answer Q2 to continue'' a
            else if subIndex p = 2 \<and> trim (exQ3Text p) = []
              then alert ''Please write a short dialogue for Q3'' a
            else (None, setSubIndex (\<lambda>s. s + 1) a))
         else (None, onNext a))
      else if sid = Some (asc ''guardrails'') then
        (let lastSub = 3 in
         if subIndex p < lastSub then
           (if subIndex p = 0 \<and> length (gQ1Selections p) = 0
                 \<and> \<not> (gQ1OtherOpen p \<and> trim (gQ1OtherText p) \<noteq> [])
              then alert ''Please answer Q1 to continue'' a
            else if subIndex p = 1 \<and> gQ2Selection p = None
                    \<and> \<not> (gQ2OtherOpen p \<and> trim (gQ2OtherText p) \<noteq> [])
              then alert ''Please answer Q2 to continue'' a
            else if subIndex p = 2
                    \<and> truthy (find (\<lambda>r. \<not> truthy (gQ3Map p r)) guardQ3Rows)
              then alert ''Please set permissions for all items in Q3 (e.g. never / with my review / independently)'' a
            else (None, setSubIndex (\<lambda>s. s + 1) a))
         else (None, onNext a))
      else if sid = Some (asc ''preview'') then
        (let lastSub = 2 in
         if subIndex p < lastSub then
           (if subIndex p = 0 \<and> previewRating p \<le> 0
              then alert ''Please rate the preview to continue'' a
            else (None, setSubIndex (\<lambda>s. s + 1) a))
         else (None, onNext a))
      else (None, onNext a))"

text \<open>
  The handler of the button "Next" below the questions of the identity step, which does
  not call \<open>goNext\<close> but repeats its checks.
\<close>

definition identityNextClick :: "app_state \<Rightarrow> jsstring option \<times> app_state" where
  "identityNextClick a =
     (let p = panel a; lastSub = 5 in
      if subIndex p < lastSub then
        (if subIndex p = 0 \<and> trim (q1Text p) = []
           then alert ''Please answer Q1 to continue'' a
         else if subIndex p = 1 \<and> length (q2Selections p) = 0
                 \<and> \<not> (q2OtherOpen p \<and> trim (q2OtherText p) \<noteq> [])
           then alert ''Please select at least one tone for Q2'' a
         else if subIndex p = 2 \<and> q3Selection p = None \<and> trim (q3OtherText p) = []
           then alert ''Please select or enter a phrase for Q3'' a
         else if subIndex p = 3 \<and> q4Selection p = None
                 \<and> \<not> (q4OtherOpen p \<and> trim (q4OtherText p) \<noteq> [])
           then alert ''Please select a phrase for Q4'' a
         else (None, setSubIndex (\<lambda>s. min lastSub (s + 1)) a))
      else (None, onNext a))"


section \<open>The preview step\<close>

text \<open>
  \<open>commitPreviewFromSliders\<close> ignores its argument. It updates the state at once and
  schedules two callbacks, returned here with their delays in milliseconds.
\<close>

datatype slider = Directness | Warmth | Challenge

datatype timer_action = ShowDemo jsstring | SwapBackground jsstring

definition commitPreviewFromSliders ::
    "slider \<Rightarrow> panel_state \<Rightarrow> panel_state \<times> (nat \<times> timer_action) list" where
  "commitPreviewFromSliders which p =
     (let d = directness p; wv = warmth p; ch = challenge p;
          newBg = computePreviewGradient (Fin (of_int d)) (Fin (of_int wv)) (Fin (of_int ch))
      in (p\<lparr>commDirectness := directness p, commWarmth := warmth p,
            commChallenge := challenge p,
            previewMessage := Some (previewTexts d wv ch),
            demoVisible := False, nextBgGradient := newBg, bgFading := True\<rparr>,
          [(220, ShowDemo (gen d wv ch)), (360, SwapBackground newBg)]))"

definition fireTimer :: "timer_action \<Rightarrow> panel_state \<Rightarrow> panel_state" where
  "fireTimer t p =
     (case t of
        ShowDemo content \<Rightarrow> p\<lparr>demoContent := content, demoVisible := True\<rparr>
      | SwapBackground bg \<Rightarrow> p\<lparr>bgGradient := bg, nextBgGradient := [], bgFading := False\<rparr>)"

text \<open>The button "Not quite, tweak it" of sub-index 1.\<close>

definition tweakClick :: "panel_state \<Rightarrow> panel_state" where
  "tweakClick p = p\<lparr>selectedFeedbackChoice := Some Tweak, subIndex := 0,
     showAdvancedPreviewControls := True\<rparr>"


section \<open>Example states\<close>

text \<open>The identity step (index 1) past its intro, at sub-index \<open>k\<close>, with the answers of \<open>p\<close>.\<close>

definition identityAt :: "nat \<Rightarrow> panel_state \<Rightarrow> app_state" where
  "identityAt k p = \<lparr>home = initialHome\<lparr>showStepper := True, currentStep := 1\<rparr>,
     panel = p\<lparr>showIntro := False, subIndex := k\<rparr>\<rparr>"

text \<open>The preview step with the advanced controls open and the live sliders at \<open>d\<close>, \<open>w\<close>, \<open>c\<close>.\<close>

definition slidersAt :: "int \<Rightarrow> int \<Rightarrow> int \<Rightarrow> panel_state" where
  "slidersAt d w c = initialPanel\<lparr>showIntro := False, showAdvancedPreviewControls := True,
     directness := d, warmth := w, challenge := c\<rparr>"

text \<open>
  The panel after the sliders were released at 9, 2, 9 and the user went on to the
  question "What do you think?".
\<close>

definition afterCommit :: panel_state where
  "afterCommit = (fst (commitPreviewFromSliders Challenge (slidersAt 9 2 9)))\<lparr>subIndex := 1\<rparr>"

text \<open>
  The language step on its feedback screen, both languages chosen and the progress of the
  step recorded as 1. From there \<open>goNext\<close> calls \<open>onNext\<close> and the identity step is entered.
\<close>

definition languageDone :: app_state where
  "languageDone = \<lparr>
     home = initialHome\<lparr>showStepper := True, stepProgress := [asc ''language'' \<mapsto> 1]\<rparr>,
     panel = initialPanel\<lparr>showIntro := False, subIndex := 2,
       onboardingLang := Some (asc ''English''), twinLang := Some (asc ''Dutch'')\<rparr>\<rparr>"


section \<open>Properties of the gradient\<close>

subsection \<open>Operations that stay finite\<close>

lemma overflowBound_large: "2 ^ 1023 < overflowBound"
  by (simp add: overflowBound_def)

lemma fin_Fin:
  assumes "- (2 ^ 1023) \<le> x" and "x \<le> 2 ^ 1023"
  shows "fin x = Fin x"
  using assms overflowBound_large by (simp add: fin_def)

lemma fin_small:
  assumes "- 100000 \<le> x" and "x \<le> 100000"
  shows "fin x = Fin x"
proof (rule fin_Fin)
  have "(100000::rat) \<le> 2 ^ 1023" by simp
  with assms show "- (2 ^ 1023) \<le> x" "x \<le> 2 ^ 1023" by linarith+
qed
lemma overflowBound_pos: "0 < overflowBound"
  using overflowBound_large by (rule less_trans [rotated]) simp

lemma fin_nonneg:
  assumes "0 \<le> x" and "x < overflowBound"
  shows "fin x = Fin x"
  using assms overflowBound_pos by (simp add: fin_def)

lemma jsMax_Fin: "jsMax (Fin a) (Fin b) = Fin (max a b)"
  by (simp add: jsMax_def max_def)
lemma small_below_overflowBound:
  assumes "x \<le> 100000"
  shows "x < overflowBound"
proof -
  have "(100000::rat) < 2 ^ 1023" by simp
  with assms overflowBound_large show ?thesis by linarith
qed
lemma fin_share:
  assumes "0 \<le> p" and "p \<le> ft" and ft: "0 < ft" and "0 \<le> r" and "r \<le> 100"
  shows "jsMul (jsDiv (Fin p) (Fin ft)) (Fin r) = Fin (p / ft * r)"
proof -
  have q0: "0 \<le> p / ft" using assms ft by simp
  have q1: "p / ft \<le> 1" using assms ft by simp
  have "fin (p / ft) = Fin (p / ft)"
  proof (rule fin_small)
    show "- 100000 \<le> p / ft" using q0 by linarith
    show "p / ft \<le> 100000" using q1 by linarith
  qed
  then have d: "jsDiv (Fin p) (Fin ft) = Fin (p / ft)"
    using ft by simp
  have "0 \<le> p / ft * r" using q0 assms by simp
  moreover have "p / ft * r \<le> 1 * 100"
    using q0 q1 assms by (intro mult_mono) simp_all
  ultimately have "fin (p / ft * r) = Fin (p / ft * r)" by (intro fin_small) simp_all
  with d show ?thesis by simp
qed
lemma third_finite: "jsDiv (Fin 100) (Fin 3) = Fin (100 / 3)"
  by (simp add: fin_small)

subsection \<open>The normalization and the two passes in closed form\<close>

lemma normalizedParts_finite:
  assumes "0 \<le> d" and "0 \<le> w" and "0 \<le> c" and "d + w + c < overflowBound"
  shows "normalizedParts (Fin d) (Fin w) (Fin c) =
     [Fin (d / max (1 / 10000) (d + w + c) * 100),
      Fin (w / max (1 / 10000) (d + w + c) * 100),
      Fin (c / max (1 / 10000) (d + w + c) * 100)]"
proof -
  define t where "t = max (1 / 10000) (d + w + c)"
  have t: "0 < t" and le: "d \<le> t" "w \<le> t" "c \<le> t"
    using assms by (simp_all add: t_def max_def)
  have "fin (d + w) = Fin (d + w)" using assms by (intro fin_nonneg) simp_all
  moreover have "fin (d + w + c) = Fin (d + w + c)" using assms by (intro fin_nonneg) simp_all
  ultimately have total: "jsMax (Fin (1 / 10000)) (jsAdd (jsAdd (Fin d) (Fin w)) (Fin c)) = Fin t"
    by (simp add: jsMax_Fin t_def)
  have "jsMul (jsDiv (Fin x) (Fin t)) (Fin 100) = Fin (x / t * 100)" if "0 \<le> x" "x \<le> t" for x
    using that t by (intro fin_share) simp_all
  then show ?thesis
    using assms le unfolding normalizedParts_def total Let_def t_def [symmetric] by simp
qed

lemma firstPass_finite:
  assumes "p1 \<le> 1000" and "p2 \<le> 1000" and "p3 \<le> 1000"
  shows "firstPass [Fin p1, Fin p2, Fin p3] =
     \<lparr>adjusted = [if p1 < 8 then Fin 8 else Fin 0, if p2 < 8 then Fin 8 else Fin 0,
                  if p3 < 8 then Fin 8 else Fin 0],
      remaining = Fin (budget p1 p2 p3),
      flexibleTotal = Fin (flexSum p1 p2 p3)\<rparr>"
  using assms
  by (cases "p1 < 8"; cases "p2 < 8"; cases "p3 < 8")
     (simp_all add: firstPass_def clampStep_def minSeg_def jsSub_def fin_small)

lemma distribute_closed:
  "foldl (distributeStep [q1, q2, q3] ft r) [a1, a2, a3] [0, 1, 2] =
     [if jsStrictEq a1 (Fin 0) then jsMul (jsDiv q1 ft) r else a1,
      if jsStrictEq a2 (Fin 0) then jsMul (jsDiv q2 ft) r else a2,
      if jsStrictEq a3 (Fin 0) then jsMul (jsDiv q3 ft) r else a3]"
  by (simp add: distributeStep_def)
lemma adjustParts_finite:
  assumes "p1 \<le> 1000" and "p2 \<le> 1000" and "p3 \<le> 1000"
  shows "adjustParts [Fin p1, Fin p2, Fin p3] =
     (if flexSum p1 p2 p3 \<le> 0
      then [Fin (100 / 3), Fin (100 / 3), Fin (100 / 3)]
      else [Fin (widthOf p1 p2 p3 p1), Fin (widthOf p1 p2 p3 p2), Fin (widthOf p1 p2 p3 p3)])"
  apply (simp only: adjustParts_def firstPass_finite [OF assms] Let_def clamp_state.select_convs
      distribute_closed)
  apply (cases "p1 < 8"; cases "p2 < 8"; cases "p3 < 8")
         apply (simp_all add: jsLessEq_def fin_share third_finite not_less
      del: jsDiv.simps jsMul.simps)
  done

subsection \<open>Arithmetic of the widths\<close>



text \<open>
  For percentages that are non-negative and sum to at most 100 no width falls below
  \<open>184 / 25\<close>, that is 7.36; when no percentage is more than ten times another, as with
  weights between 1 and 10, no width falls below 8.
\<close>

lemma widths_lower:
  assumes "0 \<le> p1" "0 \<le> p2" "0 \<le> p3" "p1 + p2 + p3 \<le> 100" "\<not> flexSum p1 p2 p3 \<le> 0"
  shows "184 / 25 \<le> widthOf p1 p2 p3 p1 \<and> 184 / 25 \<le> widthOf p1 p2 p3 p2
     \<and> 184 / 25 \<le> widthOf p1 p2 p3 p3"
  using assms
  by (cases "p1 < 8"; cases "p2 < 8"; cases "p3 < 8")
     (simp_all add: not_le not_less pos_le_divide_eq)


subsection \<open>The minimum width\<close>




subsection \<open>The branch that distributes evenly\<close>

lemma normalizedParts_1_1_1:
  "normalizedParts (Fin 1) (Fin 1) (Fin 1) = [Fin (100 / 3), Fin (100 / 3), Fin (100 / 3)]"
  using normalizedParts_finite [of 1 1 1] by (simp add: small_below_overflowBound)

text \<open>
  C4, as stated: \<open>(1, 1, 1)\<close> yields three widths of a third each through the even-split
  fallback for the case that all percentages are below the clamp. The percentages are
  \<open>100 / 3\<close> each, none is below 8, \<open>flexibleTotal\<close> is 100 and the fallback is not taken.
\<close>

theorem segmentWidths_1_1_1_not_evenSplit:
  "normalizedParts (Fin 1) (Fin 1) (Fin 1) = [Fin (100 / 3), Fin (100 / 3), Fin (100 / 3)]
     \<and> flexibleTotal (firstPass (normalizedParts (Fin 1) (Fin 1) (Fin 1))) = Fin 100
     \<and> \<not> evenSplit (Fin 1) (Fin 1) (Fin 1)"
  using firstPass_finite [of "100 / 3" "100 / 3" "100 / 3"]
  by (simp add: normalizedParts_1_1_1 evenSplit_def jsLessEq_def)

text \<open>
  C4, amended: \<open>(1, 1, 1)\<close> yields three widths of \<open>100 / 3\<close> each through the
  proportional branch: no segment is clamped, \<open>remaining\<close> stays 100 and \<open>flexibleTotal\<close>
  is positive.
\<close>

theorem segmentWidths_1_1_1_proportional:
  "segmentWidths (Fin 1) (Fin 1) (Fin 1) = [Fin (100 / 3), Fin (100 / 3), Fin (100 / 3)]
     \<and> adjusted (firstPass (normalizedParts (Fin 1) (Fin 1) (Fin 1))) = [Fin 0, Fin 0, Fin 0]
     \<and> remaining (firstPass (normalizedParts (Fin 1) (Fin 1) (Fin 1))) = Fin 100
     \<and> \<not> jsLessEq (flexibleTotal (firstPass (normalizedParts (Fin 1) (Fin 1) (Fin 1)))) (Fin 0)"
  using firstPass_finite [of "100 / 3" "100 / 3" "100 / 3"]
    adjustParts_finite [of "100 / 3" "100 / 3" "100 / 3"]
  by (simp add: normalizedParts_1_1_1 segmentWidths_def jsLessEq_def)





section \<open>Properties of the progress effect\<close>

text \<open>
  C1, as stated: on the language step the progress is the fraction of the two language
  choices made. With the onboarding language chosen and the panel still at sub-index 0
  the claim gives a half; the effect reports 0.
\<close>

theorem language_progress_counterexample:
  "id_step (steps ! 0) = asc ''language''
     \<and> onboardingLang (initialPanel\<lparr>showIntro := False, onboardingLang := Some (asc ''English'')\<rparr>)
         = Some (asc ''English'')
     \<and> twinLang (initialPanel\<lparr>showIntro := False, onboardingLang := Some (asc ''English'')\<rparr>) = None
     \<and> progressValue (steps ! 0) 0 (length steps)
          (initialPanel\<lparr>showIntro := False, onboardingLang := Some (asc ''English'')\<rparr>) = 0"
  by (simp add: steps_def progressValue_def initialPanel_def)

text \<open>
  C1, amended: on the language step the progress is the sub-index, clamped to \<open>[0, 2]\<close>,
  over 2: 0 at sub-index 0, a half at sub-index 1 and 1 from sub-index 2 on, whatever the
  two language choices are.
\<close>

theorem language_progress_by_subIndex:
  "id_step st = asc ''language'' \<Longrightarrow>
     progressValue st i n p = (if subIndex p = 0 then 0 else if subIndex p = 1 then 1 / 2 else 1)"
  by (cases "subIndex p < 2") (auto simp add: progressValue_def Let_def min_def)

theorem language_progress_by_subIndex_witness:
  "id_step (steps ! 0) = asc ''language''
     \<and> progressValue (steps ! 0) 0 (length steps)
          (initialPanel\<lparr>subIndex := 1, onboardingLang := Some (asc ''English''),
             twinLang := Some (asc ''Dutch'')\<rparr>) = 1 / 2"
  using language_progress_by_subIndex [of "steps ! 0" 0 "length steps"
      "initialPanel\<lparr>subIndex := 1, onboardingLang := Some (asc ''English''),
             twinLang := Some (asc ''Dutch'')\<rparr>"]
  by (simp add: steps_def)


section \<open>Properties of the preview texts\<close>

text \<open>
  The three messages end in U+201D, the pattern of the replacement asks for the ASCII
  quotation mark, so the replacement leaves each of them as it is.
\<close>

lemma replaceTrailingQuestion_noop:
  assumes "last m \<noteq> 34"
  shows "replaceTrailingQuestion m = m"
proof (cases "2 \<le> length m \<and> drop (length m - 2) m = [63, 34]")
  case True
  then have "last (drop (length m - 2) m) = 34" by simp
  moreover have "last (drop (length m - 2) m) = last m"
  proof (rule last_drop)
    from True have "2 \<le> length m" by simp
    then show "length m - 2 < length m" by arith
  qed
  ultimately show ?thesis using assms by simp
next
  case False
  then show ?thesis by (auto simp add: replaceTrailingQuestion_def)
qed

lemma templates_end_curly:
  "last msgDefault = 8221" "last msgWarmth = 8221" "last msgDirectness = 8221"
  by (simp_all add: msgDefault_def msgWarmth_def msgDirectness_def RDQUO_def)

lemma templates_unchanged:
  "replaceTrailingQuestion msgDefault = msgDefault"
  "replaceTrailingQuestion msgWarmth = msgWarmth"
  "replaceTrailingQuestion msgDirectness = msgDirectness"
  by (simp_all add: replaceTrailingQuestion_noop templates_end_curly)

lemma previewTexts_eq:
  "previewTexts d wv ch =
     (if 7 \<le> wv \<and> d < wv then \<lparr>msg = msgWarmth, reflection = reflectionWarmth\<rparr>
      else if 7 \<le> d \<and> wv \<le> d then \<lparr>msg = msgDirectness, reflection = reflectionDirectness\<rparr>
      else \<lparr>msg = msgDefault, reflection = reflectionDefault\<rparr>)"
  by (simp add: previewTexts_def Let_def templates_unchanged)

lemma slidersAt_simps:
  "directness (slidersAt d w c) = d" "warmth (slidersAt d w c) = w"
  "challenge (slidersAt d w c) = c"
  by (simp_all add: slidersAt_def)

lemma afterCommit_simps:
  "subIndex afterCommit = 1" "commDirectness afterCommit = 9" "commWarmth afterCommit = 2"
  "commChallenge afterCommit = 9"
  by (simp_all add: afterCommit_def commitPreviewFromSliders_def Let_def slidersAt_simps)

text \<open>
  C2, as stated: at directness 9, warmth 2, challenge 9 the directness-led message gets the
  confrontational clause before its closing quote. The stored message is the
  directness-led template unaltered; its last two code units are a full stop and U+201D,
  not the question mark and ASCII quotation mark that the pattern asks for.
\<close>

theorem commit_9_2_9_message_unaltered:
  "previewMessage (fst (commitPreviewFromSliders Challenge (slidersAt 9 2 9)))
      = Some \<lparr>msg = msgDirectness, reflection = reflectionDirectness\<rparr>
   \<and> drop (length msgDirectness - 2) msgDirectness = [46, 8221]"
  by (simp add: commitPreviewFromSliders_def Let_def slidersAt_simps previewTexts_eq
        msgDirectness_def LDQUO_def RSQUO_def RDQUO_def asc_def)

text \<open>
  C2, amended: at directness 9, warmth 2, challenge 9 the commit stores these values,
  selects the directness-led message and reflection, attempts the replacement (challenge
  is at least 8), which leaves the directness-led message unchanged, and schedules the
  directness-led demo sentence.
\<close>

theorem commit_9_2_9:
  assumes "directness p = 9" and "warmth p = 2" and "challenge p = 9"
  shows "commDirectness (fst (commitPreviewFromSliders which p)) = 9
     \<and> commWarmth (fst (commitPreviewFromSliders which p)) = 2
     \<and> commChallenge (fst (commitPreviewFromSliders which p)) = 9
     \<and> previewMessage (fst (commitPreviewFromSliders which p))
         = Some \<lparr>msg = msgDirectness, reflection = reflectionDirectness\<rparr>
     \<and> replaceTrailingQuestion msgDirectness = msgDirectness
     \<and> gen 9 2 9 = demoDirectness
     \<and> snd (commitPreviewFromSliders which p) ! 0 = (220, ShowDemo demoDirectness)"
  using assms
  by (simp add: commitPreviewFromSliders_def Let_def previewTexts_eq templates_unchanged gen_def)

theorem commit_9_2_9_witness:
  "directness (slidersAt 9 2 9) = 9 \<and> warmth (slidersAt 9 2 9) = 2 \<and> challenge (slidersAt 9 2 9) = 9
   \<and> commChallenge (fst (commitPreviewFromSliders Challenge (slidersAt 9 2 9))) = 9
   \<and> previewMessage (fst (commitPreviewFromSliders Challenge (slidersAt 9 2 9)))
         = Some \<lparr>msg = msgDirectness, reflection = reflectionDirectness\<rparr>
   \<and> snd (commitPreviewFromSliders Challenge (slidersAt 9 2 9)) ! 0 = (220, ShowDemo demoDirectness)"
  using commit_9_2_9 [of "slidersAt 9 2 9" Challenge]
  by (simp add: slidersAt_simps)

text \<open>
  C6. For sliders in \<open>[1, 10]\<close> the commit stores the warmth-led template when
  \<open>warmth \<ge> 7\<close> and \<open>warmth > directness\<close>, otherwise the directness-led one when
  \<open>directness \<ge> 7\<close> and \<open>directness \<ge> warmth\<close>, otherwise the neutral one.
\<close>

theorem template_priority:
  assumes "1 \<le> directness p \<and> directness p \<le> 10" and "1 \<le> warmth p \<and> warmth p \<le> 10"
    and "1 \<le> challenge p \<and> challenge p \<le> 10"
  shows "previewMessage (fst (commitPreviewFromSliders which p)) =
     Some (if warmth p \<ge> 7 \<and> warmth p > directness p
             then \<lparr>msg = msgWarmth, reflection = reflectionWarmth\<rparr>
           else if directness p \<ge> 7 \<and> directness p \<ge> warmth p
             then \<lparr>msg = msgDirectness, reflection = reflectionDirectness\<rparr>
           else \<lparr>msg = msgDefault, reflection = reflectionDefault\<rparr>)"
  by (simp add: commitPreviewFromSliders_def Let_def previewTexts_eq)

theorem template_priority_witness:
  "(1 \<le> directness (slidersAt 3 8 9) \<and> directness (slidersAt 3 8 9) \<le> 10)
   \<and> (1 \<le> warmth (slidersAt 3 8 9) \<and> warmth (slidersAt 3 8 9) \<le> 10)
   \<and> (1 \<le> challenge (slidersAt 3 8 9) \<and> challenge (slidersAt 3 8 9) \<le> 10)
   \<and> previewMessage (fst (commitPreviewFromSliders Warmth (slidersAt 3 8 9)))
        = Some \<lparr>msg = msgWarmth, reflection = reflectionWarmth\<rparr>"
  using template_priority [of "slidersAt 3 8 9" Warmth]
  by (simp add: slidersAt_simps)


section \<open>Properties of the navigation\<close>

lemma identityAt_simps:
  "currentStepId (home (identityAt k p)) = Some (asc ''identity'')"
  "panel (identityAt k p) = p\<lparr>showIntro := False, subIndex := k\<rparr>"
  by (simp_all add: identityAt_def initialHome_def currentStepId_def currentStepOf_def steps_def)

lemma step_ids_distinct:
  "asc ''identity'' \<noteq> asc ''language''" "asc ''language'' \<noteq> asc ''identity''"
  by (simp_all add: asc_def)

text \<open>
  C5, as stated: from question index 3 of the identity step \<open>goNext\<close> advances if and only
  if a phrase is selected or the other-text is non-empty after trimming. With no phrase
  selected, the toggle "Other" closed and the other-text \<open>abc\<close> left from before, the
  text is non-empty and \<open>goNext\<close> raises the notice and leaves the state as it is.
\<close>

theorem goNext_identity_q4_counterexample:
  "currentStepId (home (identityAt 3 (initialPanel\<lparr>q4OtherText := asc ''abc''\<rparr>))) = Some (asc ''identity'')
   \<and> subIndex (panel (identityAt 3 (initialPanel\<lparr>q4OtherText := asc ''abc''\<rparr>))) = 3
   \<and> trim (q4OtherText (panel (identityAt 3 (initialPanel\<lparr>q4OtherText := asc ''abc''\<rparr>)))) = asc ''abc''
   \<and> asc ''abc'' \<noteq> []
   \<and> goNext (identityAt 3 (initialPanel\<lparr>q4OtherText := asc ''abc''\<rparr>))
       = (Some (asc ''Please select a phrase for Q4''),
          identityAt 3 (initialPanel\<lparr>q4OtherText := asc ''abc''\<rparr>))"
  by (simp add: goNext_def Let_def alert_def identityAt_simps step_ids_distinct
        initialPanel_def trim_def isWhiteSpace_def asc_def)

text \<open>
  C5, amended: from question index 3 of the identity step \<open>goNext\<close> advances to sub-index 4
  if and only if a phrase is selected, or the toggle "Other" is open and the other-text is
  non-empty after trimming; otherwise it raises the notice and leaves the state unchanged.
\<close>

theorem goNext_identity_q4:
  assumes "currentStepId (home a) = Some (asc ''identity'')" and "subIndex (panel a) = 3"
  shows "goNext a =
     (if q4Selection (panel a) \<noteq> None
          \<or> (q4OtherOpen (panel a) \<and> trim (q4OtherText (panel a)) \<noteq> [])
      then (None, a\<lparr>panel := (panel a)\<lparr>subIndex := 4\<rparr>\<rparr>)
      else (Some (asc ''Please select a phrase for Q4''), a))"
  using assms by (simp add: goNext_def Let_def alert_def setSubIndex_def step_ids_distinct)

theorem goNext_identity_q4_witness:
  "currentStepId (home (identityAt 3 (initialPanel\<lparr>q4Selection := Some (asc ''Calm down'')\<rparr>)))
      = Some (asc ''identity'')
   \<and> subIndex (panel (identityAt 3 (initialPanel\<lparr>q4Selection := Some (asc ''Calm down'')\<rparr>))) = 3
   \<and> fst (goNext (identityAt 3 (initialPanel\<lparr>q4Selection := Some (asc ''Calm down'')\<rparr>))) = None
   \<and> subIndex (panel (snd (goNext (identityAt 3 (initialPanel\<lparr>q4Selection := Some (asc ''Calm down'')\<rparr>))))) = 4"
  using goNext_identity_q4 [of "identityAt 3 (initialPanel\<lparr>q4Selection := Some (asc ''Calm down'')\<rparr>)"]
  by (simp add: identityAt_simps initialPanel_def)

text \<open>
  C7. On the identity step at sub-index 0 with a free text that trims to the empty string,
  \<open>goNext\<close> raises the notice and returns the state it was given: the sub-index stays 0 and
  no cell of the panel or of \<open>Home\<close> changes.
\<close>

theorem goNext_identity_q1_empty:
  assumes "currentStepId (home a) = Some (asc ''identity'')" and "subIndex (panel a) = 0"
    and "trim (q1Text (panel a)) = []"
  shows "goNext a = (Some (asc ''Please answer Q1 to continue''), a)"
  using assms by (simp add: goNext_def Let_def alert_def step_ids_distinct)

theorem goNext_identity_q1_empty_witness:
  "currentStepId (home (identityAt 0 (initialPanel\<lparr>q1Text := asc ''  ''\<rparr>))) = Some (asc ''identity'')
   \<and> subIndex (panel (identityAt 0 (initialPanel\<lparr>q1Text := asc ''  ''\<rparr>))) = 0
   \<and> trim (q1Text (panel (identityAt 0 (initialPanel\<lparr>q1Text := asc ''  ''\<rparr>)))) = []
   \<and> goNext (identityAt 0 (initialPanel\<lparr>q1Text := asc ''  ''\<rparr>))
       = (Some (asc ''Please answer Q1 to continue''), identityAt 0 (initialPanel\<lparr>q1Text := asc ''  ''\<rparr>))"
  using goNext_identity_q1_empty [of "identityAt 0 (initialPanel\<lparr>q1Text := asc ''  ''\<rparr>)"]
  by (simp add: identityAt_simps initialPanel_def trim_def isWhiteSpace_def asc_def)

text \<open>The button "Next" of the identity step behaves as \<open>goNext\<close> does.\<close>

lemma identityNextClick_eq_goNext:
  assumes "currentStepId (home a) = Some (asc ''identity'')"
  shows "identityNextClick a = goNext a"
  using assms
  by (auto simp add: identityNextClick_def goNext_def Let_def step_ids_distinct setSubIndex_def min_def)

text \<open>
  C9. On the preview step, "tweak it" at sub-index 1 sets the sub-index to 0 and shows the
  advanced controls; the committed tone values stay as they are.
\<close>

theorem tweakClick_keeps_committed:
  assumes "subIndex p = 1"
  shows "subIndex (tweakClick p) = 0 \<and> showAdvancedPreviewControls (tweakClick p)
     \<and> commDirectness (tweakClick p) = commDirectness p
     \<and> commWarmth (tweakClick p) = commWarmth p
     \<and> commChallenge (tweakClick p) = commChallenge p"
  by (simp add: tweakClick_def)

theorem tweakClick_keeps_committed_witness:
  "subIndex afterCommit = 1 \<and> subIndex (tweakClick afterCommit) = 0
   \<and> showAdvancedPreviewControls (tweakClick afterCommit)
   \<and> commDirectness (tweakClick afterCommit) = 9 \<and> commWarmth (tweakClick afterCommit) = 2
   \<and> commChallenge (tweakClick afterCommit) = 9"
  using tweakClick_keeps_committed [of afterCommit]
  by (simp add: afterCommit_simps)


section \<open>Properties of the step change\<close>

lemma progressEffect_simps:
  "panel (progressEffect a) = panel a"
  "currentStep (home (progressEffect a)) = currentStep (home a)"
  "showStepper (home (progressEffect a)) = showStepper (home a)"
  by (simp_all add: progressEffect_def reportProgress_def handleStepProgress_def
        split: option.split)

lemma currentStepId_progressEffect:
  "currentStepId (home (progressEffect a)) = currentStepId (home a)"
  by (simp add: currentStepId_def currentStepOf_def progressEffect_simps)

lemma stepProgress_progressEffect:
  assumes "currentStepId (home a) \<noteq> Some k"
  shows "stepProgress (home (progressEffect a)) k = stepProgress (home a) k"
  using assms
  by (auto simp add: progressEffect_def reportProgress_def handleStepProgress_def
        currentStepId_def split: option.split)

lemma panel_stepChangeEffects:
  "panel (stepChangeEffects a) = showIntroEffect (resetEffect (panel a))"
  by (simp add: stepChangeEffects_def Let_def progressEffect_simps)

lemma stepProgress_stepChangeEffects:
  assumes "currentStepId (home a) \<noteq> Some k"
  shows "stepProgress (home (stepChangeEffects a)) k = stepProgress (home a) k"
proof -
  let ?a1 = "progressEffect a"
  let ?a2 = "?a1\<lparr>panel := showIntroEffect (resetEffect (panel ?a1))\<rparr>"
  have id2: "currentStepId (home ?a2) = currentStepId (home a)"
    by (simp add: currentStepId_progressEffect)
  have "stepProgress (home (progressEffect ?a2)) k = stepProgress (home ?a2) k"
    by (rule stepProgress_progressEffect) (simp add: currentStepId_progressEffect assms)
  also have "\<dots> = stepProgress (home ?a1) k" by simp
  also have "\<dots> = stepProgress (home a) k" by (rule stepProgress_progressEffect [OF assms])
  finally show ?thesis by (simp add: stepChangeEffects_def Let_def)
qed

lemma goNext_languageDone:
  "goNext languageDone = (None, languageDone\<lparr>home := (home languageDone)\<lparr>currentStep := 1\<rparr>\<rparr>)"
  by (simp add: goNext_def Let_def languageDone_def initialHome_def currentStepId_def
        currentStepOf_def steps_def onNext_def initialPanel_def)

lemma languageDone_fields:
  "stepProgress (home languageDone) = [asc ''language'' \<mapsto> 1]"
  "onboardingLang (panel languageDone) = Some (asc ''English'')"
  "twinLang (panel languageDone) = Some (asc ''Dutch'')"
  by (simp_all add: languageDone_def initialHome_def initialPanel_def)

lemma enteredIdentity_simps:
  "fst (goNext languageDone) = None"
  "currentStepId (home (snd (goNext languageDone))) = Some (asc ''identity'')"
  "stepProgress (home (snd (goNext languageDone))) (asc ''language'') = Some 1"
  "onboardingLang (panel (snd (goNext languageDone))) = Some (asc ''English'')"
  "twinLang (panel (snd (goNext languageDone))) = Some (asc ''Dutch'')"
  by (simp_all add: goNext_languageDone languageDone_fields currentStepId_def
        currentStepOf_def steps_def)

text \<open>
  C8, as stated: when the id of the active step changes, the answers of the entering step
  are reset and the answers of every other step are left as they were. Entering the
  identity step from the language step, the two language choices, answers of the step
  just left, are reset to null.
\<close>

theorem stepChange_resets_other_steps_counterexample:
  "fst (goNext languageDone) = None
   \<and> currentStepId (home (snd (goNext languageDone))) = Some (asc ''identity'')
   \<and> onboardingLang (panel (snd (goNext languageDone))) = Some (asc ''English'')
   \<and> twinLang (panel (snd (goNext languageDone))) = Some (asc ''Dutch'')
   \<and> onboardingLang (panel (stepChangeEffects (snd (goNext languageDone)))) = None
   \<and> twinLang (panel (stepChangeEffects (snd (goNext languageDone)))) = None"
  by (simp add: enteredIdentity_simps panel_stepChangeEffects resetEffect_def showIntroEffect_def)

text \<open>
  C8, amended: when the id of the active step changes, the sub-index is set to 0 and the
  intro flag to true, and these answer fields of all steps, the entering one and the
  others alike, are reset to their defaults: the two language choices; of the identity
  step the free text, the selections and other-texts of questions 2 to 5 and the toggles
  "Other" of questions 2, 4 and 5; of the method and example steps every selection,
  toggle and text; of the guardrails step the selections, toggles, texts and the
  permission map; of the preview step the closeness rating, the flag of the advanced
  controls and the three live sliders. The current step stays, and the entries of the
  progress map recorded for other steps are left unmodified.
\<close>

theorem stepChange_resets_every_step:
  assumes "a' = stepChangeEffects a" and "p' = panel a'"
  shows "subIndex p' = 0 \<and> showIntro p'
     \<and> onboardingLang p' = None \<and> twinLang p' = None
     \<and> q1Text p' = [] \<and> q2Selections p' = [] \<and> \<not> q2OtherOpen p' \<and> q2OtherText p' = []
     \<and> q3Selection p' = None \<and> q3OtherText p' = []
     \<and> q4Selection p' = None \<and> \<not> q4OtherOpen p' \<and> q4OtherText p' = []
     \<and> q5Selections p' = [] \<and> \<not> q5OtherOpen p' \<and> q5OtherText p' = []
     \<and> mQ1Selection p' = None \<and> \<not> mQ1OtherOpen p' \<and> mQ1OtherText p' = []
     \<and> mQ2Selection p' = None \<and> \<not> mQ2OtherOpen p' \<and> mQ2OtherText p' = []
     \<and> mQ3Selection p' = None \<and> \<not> mQ3OtherOpen p' \<and> mQ3OtherText p' = []
     \<and> exQ1Selection p' = None \<and> \<not> exQ1OtherOpen p' \<and> exQ1OtherText p' = []
     \<and> exQ2Selection p' = None \<and> \<not> exQ2OtherOpen p' \<and> exQ2OtherText p' = []
     \<and> exQ3Text p' = []
     \<and> gQ1Selections p' = [] \<and> \<not> gQ1OtherOpen p' \<and> gQ1OtherText p' = []
     \<and> gQ2Selection p' = None \<and> \<not> gQ2OtherOpen p' \<and> gQ2OtherText p' = []
     \<and> gQ3Map p' = (\<lambda>r. None)
     \<and> previewRating p' = 5 \<and> \<not> showAdvancedPreviewControls p'
     \<and> directness p' = 5 \<and> warmth p' = 5 \<and> challenge p' = 5
     \<and> currentStep (home a') = currentStep (home a)
     \<and> (\<forall>k. currentStepId (home a) \<noteq> Some k \<longrightarrow>
            stepProgress (home a') k = stepProgress (home a) k)"
proof -
  have p: "p' = showIntroEffect (resetEffect (panel a))"
    using assms by (simp add: panel_stepChangeEffects)
  have fields: "subIndex p' = 0 \<and> showIntro p'
     \<and> onboardingLang p' = None \<and> twinLang p' = None
     \<and> q1Text p' = [] \<and> q2Selections p' = [] \<and> \<not> q2OtherOpen p' \<and> q2OtherText p' = []
     \<and> q3Selection p' = None \<and> q3OtherText p' = []
     \<and> q4Selection p' = None \<and> \<not> q4OtherOpen p' \<and> q4OtherText p' = []
     \<and> q5Selections p' = [] \<and> \<not> q5OtherOpen p' \<and> q5OtherText p' = []
     \<and> mQ1Selection p' = None \<and> \<not> mQ1OtherOpen p' \<and> mQ1OtherText p' = []
     \<and> mQ2Selection p' = None \<and> \<not> mQ2OtherOpen p' \<and> mQ2OtherText p' = []
     \<and> mQ3Selection p' = None \<and> \<not> mQ3OtherOpen p' \<and> mQ3OtherText p' = []
     \<and> exQ1Selection p' = None \<and> \<not> exQ1OtherOpen p' \<and> exQ1OtherText p' = []
     \<and> exQ2Selection p' = None \<and> \<not> exQ2OtherOpen p' \<and> exQ2OtherText p' = []
     \<and> exQ3Text p' = []
     \<and> gQ1Selections p' = [] \<and> \<not> gQ1OtherOpen p' \<and> gQ1OtherText p' = []
     \<and> gQ2Selection p' = None \<and> \<not> gQ2OtherOpen p' \<and> gQ2OtherText p' = []
     \<and> gQ3Map p' = (\<lambda>r. None)
     \<and> previewRating p' = 5 \<and> \<not> showAdvancedPreviewControls p'
     \<and> directness p' = 5 \<and> warmth p' = 5 \<and> challenge p' = 5"
    unfolding p by (simp add: resetEffect_def showIntroEffect_def)
  have cs: "currentStep (home a') = currentStep (home a)"
    using assms by (simp add: stepChangeEffects_def Let_def progressEffect_simps)
  have frame: "\<forall>k. currentStepId (home a) \<noteq> Some k \<longrightarrow>
            stepProgress (home a') k = stepProgress (home a) k"
    using assms by (simp add: stepProgress_stepChangeEffects)
  from fields cs frame show ?thesis by blast
qed

theorem stepChange_resets_every_step_witness:
  "currentStepId (home (snd (goNext languageDone))) \<noteq> Some (asc ''language'')
   \<and> stepProgress (home (stepChangeEffects (snd (goNext languageDone)))) (asc ''language'') = Some 1
   \<and> subIndex (panel (stepChangeEffects (snd (goNext languageDone)))) = 0
   \<and> showIntro (panel (stepChangeEffects (snd (goNext languageDone))))
   \<and> q1Text (panel (stepChangeEffects (snd (goNext languageDone)))) = []
   \<and> onboardingLang (panel (stepChangeEffects (snd (goNext languageDone)))) = None"
proof -
  note t = stepChange_resets_every_step [OF refl refl, of "snd (goNext languageDone)"]
  have other: "currentStepId (home (snd (goNext languageDone))) \<noteq> Some (asc ''language'')"
    by (simp add: enteredIdentity_simps asc_def)
  from t have "\<forall>k. currentStepId (home (snd (goNext languageDone))) \<noteq> Some k \<longrightarrow>
      stepProgress (home (stepChangeEffects (snd (goNext languageDone)))) k
        = stepProgress (home (snd (goNext languageDone))) k"
    by blast
  with other have "stepProgress (home (stepChangeEffects (snd (goNext languageDone)))) (asc ''language'')
        = stepProgress (home (snd (goNext languageDone))) (asc ''language'')"
    by blast
  then have "stepProgress (home (stepChangeEffects (snd (goNext languageDone)))) (asc ''language'') = Some 1"
    by (simp add: enteredIdentity_simps)
  with other t show ?thesis by blast
qed

text \<open>
  The reset effect has no call of \<open>setQ3OtherOpen\<close>: the toggle "Other" of question 3 of
  the identity step, alone among the toggles, keeps its value.
\<close>

lemma stepChange_keeps_q3OtherOpen:
  "q3OtherOpen (panel (stepChangeEffects a)) = q3OtherOpen (panel a)"
  by (simp add: panel_stepChangeEffects resetEffect_def showIntroEffect_def)

end
